theory Spec2Isabelle
  imports Complex_Main "HOL-Library.Monad_Syntax"
begin

section \<open>Data model (types.ts)\<close>

text \<open>
  The records take the type of numbers as a parameter. The gesture classifier is given twice
  below: with JavaScript numbers as exact reals (\<open>Math.sqrt\<close> is \<^const>\<open>sqrt\<close>, no rounding),
  which is what the statements about emitted coordinates and scales are about, and with the
  arithmetic of the platform as a parameter, which is what the statements about the latch,
  \<open>isPinched\<close>, the mode and the openness of a hand are about: those hold whatever the
  arithmetic rounds to.
\<close>

datatype Mode = IDLE | ZOOM | ROTATE

text \<open>The \<^verbatim>\<open>{ x, y }\<close> object of \<^verbatim>\<open>HandState.position\<close>.\<close>

record 'n Position_of =
  pos_x :: 'n
  pos_y :: 'n

type_synonym Position = "real Position_of"

record 'n HandState_of =
  pinchDistance :: 'n
  handDistance :: 'n
  isPinched :: bool
  position :: "'n Position_of"
  isDetected :: bool
  mode :: Mode

type_synonym HandState = "real HandState_of"

definition INITIAL_HAND_STATE :: HandState where
  "INITIAL_HAND_STATE =
     \<lparr>pinchDistance = 1, handDistance = 0, isPinched = False,
      position = \<lparr>pos_x = 0, pos_y = 0\<rparr>, isDetected = False, mode = IDLE\<rparr>"

definition PINCH_THRESHOLD :: real where
  "PINCH_THRESHOLD = 0.05"

section \<open>Hand landmarks\<close>

text \<open>
  One keypoint of the landmark source (fields \<^verbatim>\<open>x\<close>, \<^verbatim>\<open>y\<close>, \<^verbatim>\<open>z\<close>). A hand is the array of
  its keypoints, and \<^verbatim>\<open>result.landmarks\<close> is the array of the detected hands.
\<close>

record 'n Landmark_of =
  lm_x :: 'n
  lm_y :: 'n
  lm_z :: 'n

type_synonym Landmark = "real Landmark_of"

type_synonym Hand = "Landmark list"

text \<open>
  Reading an array out of range gives \<^verbatim>\<open>undefined\<close> in JavaScript, and the property access
  that follows in every use below throws a TypeError. \<open>None\<close> is that exception.
\<close>

definition getAt :: "'a list \<Rightarrow> nat \<Rightarrow> 'a option" where
  "getAt xs i = (if i < length xs then Some (xs ! i) else None)"

text \<open>\<^verbatim>\<open>Math.hypot\<close> on two arguments, in exact arithmetic.\<close>

definition hypot :: "real \<Rightarrow> real \<Rightarrow> real" where
  "hypot a b = sqrt (a * a + b * b)"

section \<open>HandTracker: isHandOpen\<close>

text \<open>This section and the next give the tracker over the reals, without rounding.\<close>

definition tips :: "nat list" where
  "tips = [8, 12, 16, 20]"

definition pips :: "nat list" where
  "pips = [6, 10, 14, 18]"

text \<open>
  The \<^verbatim>\<open>for\<close> loop of \<^verbatim>\<open>isHandOpen\<close>, from counter \<open>i\<close> with \<open>extendedCount\<close> fingers counted
  so far; it returns the final count.
\<close>

function isHandOpen_loop :: "Hand \<Rightarrow> Landmark \<Rightarrow> nat \<Rightarrow> nat \<Rightarrow> nat option" where
  "isHandOpen_loop landmarks wrist i extendedCount =
     (if i < 4 then
        (case getAt landmarks (tips ! i) of
           None \<Rightarrow> None
         | Some tip \<Rightarrow>
             (case getAt landmarks (pips ! i) of
                None \<Rightarrow> None
              | Some pip \<Rightarrow>
                  (let dTip = hypot (lm_x tip - lm_x wrist) (lm_y tip - lm_y wrist);
                       dPip = hypot (lm_x pip - lm_x wrist) (lm_y pip - lm_y wrist)
                   in isHandOpen_loop landmarks wrist (i + 1)
                        (if dTip > dPip then extendedCount + 1 else extendedCount))))
      else Some extendedCount)"
  by pat_completeness auto
termination
  by (relation "measure (\<lambda>(landmarks, wrist, i, extendedCount). 4 - i)") auto

declare isHandOpen_loop.simps [simp del]

text \<open>
  \<^verbatim>\<open>landmarks[0]\<close> is only dereferenced inside the loop, after \<^verbatim>\<open>landmarks[8]\<close>; an empty array
  throws there, so failing on the wrist first gives the same outcome.
\<close>

definition isHandOpen :: "Hand \<Rightarrow> bool option" where
  "isHandOpen landmarks =
     do {
       wrist \<leftarrow> getAt landmarks 0;
       extendedCount \<leftarrow> isHandOpen_loop landmarks wrist 0 0;
       Some (extendedCount \<ge> 3)
     }"

section \<open>HandTracker: predictWebcam and updateHandState\<close>

text \<open>
  The two refs the tracker writes: \<^verbatim>\<open>isZoomActiveRef.current\<close> (the zoom latch) and
  \<^verbatim>\<open>handStateRef.current\<close> (the shared interaction state).
\<close>

record 'n Tracker_of =
  isZoomActive :: bool
  handState :: "'n HandState_of"

type_synonym Tracker = "real Tracker_of"

text \<open>How a call ends: it returns, or an exception leaves it.\<close>

datatype Completion = Returned | Threw

text \<open>
  \<^verbatim>\<open>updateHandState(result, detectedMode)\<close>. The record is assigned to the ref in the last
  statement, so a call that throws writes nothing.
\<close>

definition updateHandState :: "Hand list \<Rightarrow> Mode \<Rightarrow> Tracker \<Rightarrow> Tracker option" where
  "updateHandState landmarks detectedMode st =
     (if detectedMode = ZOOM \<and> length landmarks = 2 then
        do {
          hand0 \<leftarrow> getAt landmarks 0;
          hand1 \<leftarrow> getAt landmarks 1;
          h1 \<leftarrow> getAt hand0 0;
          h2 \<leftarrow> getAt hand1 0;
          let dx = lm_x h1 - lm_x h2;
          let dy = lm_y h1 - lm_y h2;
          let cx = (lm_x h1 + lm_x h2) / 2;
          let cy = (lm_y h1 + lm_y h2) / 2;
          Some (st\<lparr>handState :=
            \<lparr>pinchDistance = 1, handDistance = sqrt (dx * dx + dy * dy), isPinched = False,
             position = \<lparr>pos_x = (0.5 - cx) * 2, pos_y = (cy - 0.5) * 2\<rparr>,
             isDetected = True, mode = detectedMode\<rparr>\<rparr>)
        }
      else if length landmarks > 0 then
        do {
          lm \<leftarrow> getAt landmarks 0;
          thumb \<leftarrow> getAt lm 4;
          index \<leftarrow> getAt lm 8;
          wrist \<leftarrow> getAt lm 0;
          let dx = lm_x thumb - lm_x index;
          let dy = lm_y thumb - lm_y index;
          let dz = lm_z thumb - lm_z index;
          let pinchDistance' = sqrt (dx * dx + dy * dy + dz * dz);
          let rawX = (lm_x thumb + lm_x wrist) / 2;
          let rawY = (lm_y thumb + lm_y wrist) / 2;
          Some (st\<lparr>handState :=
            \<lparr>pinchDistance = pinchDistance', handDistance = 0,
             isPinched = (pinchDistance' < PINCH_THRESHOLD),
             position = \<lparr>pos_x = (0.5 - rawX) * 2, pos_y = (rawY - 0.5) * 2\<rparr>,
             isDetected = True, mode = detectedMode\<rparr>\<rparr>)
        }
      else
        Some (st\<lparr>handState :=
          \<lparr>pinchDistance = 1, handDistance = 0, isPinched = False,
           position = \<lparr>pos_x = 0, pos_y = 0\<rparr>, isDetected = True, mode = detectedMode\<rparr>\<rparr>))"

text \<open>The call of \<^verbatim>\<open>updateHandState\<close> that ends each branch of \<^verbatim>\<open>predictWebcam\<close>.\<close>

definition finish :: "Tracker \<Rightarrow> Tracker option \<Rightarrow> Completion \<times> Tracker" where
  "finish st r = (case r of None \<Rightarrow> (Threw, st) | Some st' \<Rightarrow> (Returned, st'))"

definition ZOOM_ACTIVATION_THRESHOLD :: real where
  "ZOOM_ACTIVATION_THRESHOLD = 0.2"

text \<open>
  One call of \<^verbatim>\<open>predictWebcam\<close>, given the detection result of the frame. \<open>ready\<close> says that
  the landmarker, the video element, the canvas and its 2D context all exist; otherwise the
  function returns at once. \<open>landmarks\<close> is \<^verbatim>\<open>result.landmarks\<close>; a missing array takes the
  same branch as the empty one. Drawing on the canvas and the scheduling of the next call do
  not touch the two refs and are left out.
\<close>

definition predictWebcam :: "bool \<Rightarrow> Hand list \<Rightarrow> Tracker \<Rightarrow> Completion \<times> Tracker" where
  "predictWebcam ready landmarks st =
     (if \<not> ready then (Returned, st)
      else if length landmarks > 0 then
        (if length landmarks = 2 then
           (case do {
                   hand0 \<leftarrow> getAt landmarks 0;
                   hand1 \<leftarrow> getAt landmarks 1;
                   h1 \<leftarrow> getAt hand0 0;
                   h2 \<leftarrow> getAt hand1 0;
                   hand1Open \<leftarrow> isHandOpen hand0;
                   hand2Open \<leftarrow> isHandOpen hand1;
                   Some (h1, h2, hand1Open, hand2Open)
                 } of
              None \<Rightarrow> (Threw, st)
            | Some (h1, h2, hand1Open, hand2Open) \<Rightarrow>
                (let dx = lm_x h1 - lm_x h2;
                     dy = lm_y h1 - lm_y h2;
                     dist = sqrt (dx * dx + dy * dy);
                     bothHandsOpen = (hand1Open \<and> hand2Open);
                     bothHandsClosed = (\<not> hand1Open \<and> \<not> hand2Open);
                     st1 = (if \<not> isZoomActive st then
                              (if dist < ZOOM_ACTIVATION_THRESHOLD \<and> bothHandsClosed
                               then st\<lparr>isZoomActive := True\<rparr> else st)
                            else
                              (if bothHandsOpen then st\<lparr>isZoomActive := False\<rparr> else st))
                 in if isZoomActive st1
                    then finish st1 (updateHandState landmarks ZOOM st1)
                    else finish st1 (updateHandState landmarks IDLE st1)))
         else
           (let st1 = st\<lparr>isZoomActive := False\<rparr>
            in case do {
                      hand \<leftarrow> getAt landmarks 0;
                      thumb \<leftarrow> getAt hand 4;
                      index \<leftarrow> getAt hand 8;
                      Some (thumb, index)
                    } of
                 None \<Rightarrow> (Threw, st1)
               | Some (thumb, index) \<Rightarrow>
                   (let dx = lm_x thumb - lm_x index;
                        dy = lm_y thumb - lm_y index;
                        dz = lm_z thumb - lm_z index;
                        currentDist = sqrt (dx * dx + dy * dy + dz * dz);
                        isPinched' = (currentDist < PINCH_THRESHOLD)
                    in finish st1
                         (updateHandState landmarks (if isPinched' then ROTATE else IDLE) st1))))
      else (Returned, st\<lparr>isZoomActive := False, handState := INITIAL_HAND_STATE\<rparr>))"

section \<open>HandTracker in a given arithmetic\<close>

text \<open>
  The arithmetic of the platform is not part of the repository: numbers are IEEE doubles, and
  \<^verbatim>\<open>Math.sqrt\<close> and \<^verbatim>\<open>Math.hypot\<close> are the engine's. It is taken here as a parameter: the value
  of a decimal literal, the four operations, the two library functions and the comparison
  \<^verbatim>\<open><\<close>, on any type of numbers (which may hold NaN and the infinities). JavaScript
  evaluates \<^verbatim>\<open>a > b\<close> as \<^verbatim>\<open>b < a\<close>.
\<close>

record 'n Arith =
  num_lit :: "real \<Rightarrow> 'n"
  num_add :: "'n \<Rightarrow> 'n \<Rightarrow> 'n"
  num_sub :: "'n \<Rightarrow> 'n \<Rightarrow> 'n"
  num_mul :: "'n \<Rightarrow> 'n \<Rightarrow> 'n"
  num_div :: "'n \<Rightarrow> 'n \<Rightarrow> 'n"
  num_sqrt :: "'n \<Rightarrow> 'n"
  num_hypot :: "'n \<Rightarrow> 'n \<Rightarrow> 'n"
  num_less :: "'n \<Rightarrow> 'n \<Rightarrow> bool"

text \<open>The exact arithmetic of the reals, without rounding.\<close>

definition exact :: "real Arith" where
  "exact =
     \<lparr>num_lit = (\<lambda>r. r), num_add = (+), num_sub = (-), num_mul = (*), num_div = (/),
      num_sqrt = sqrt, num_hypot = hypot, num_less = (<)\<rparr>"

definition INITIAL_HAND_STATE_In :: "'n Arith \<Rightarrow> 'n HandState_of" where
  "INITIAL_HAND_STATE_In ops =
     \<lparr>pinchDistance = num_lit ops 1, handDistance = num_lit ops 0, isPinched = False,
      position = \<lparr>pos_x = num_lit ops 0, pos_y = num_lit ops 0\<rparr>,
      isDetected = False, mode = IDLE\<rparr>"

text \<open>The \<^verbatim>\<open>for\<close> loop of \<^verbatim>\<open>isHandOpen\<close> and the function itself, as above.\<close>

function isHandOpenIn_loop ::
    "'n Arith \<Rightarrow> 'n Landmark_of list \<Rightarrow> 'n Landmark_of \<Rightarrow> nat \<Rightarrow> nat \<Rightarrow> nat option" where
  "isHandOpenIn_loop ops landmarks wrist i extendedCount =
     (if i < 4 then
        (case getAt landmarks (tips ! i) of
           None \<Rightarrow> None
         | Some tip \<Rightarrow>
             (case getAt landmarks (pips ! i) of
                None \<Rightarrow> None
              | Some pip \<Rightarrow>
                  (let dTip = num_hypot ops (num_sub ops (lm_x tip) (lm_x wrist))
                                (num_sub ops (lm_y tip) (lm_y wrist));
                       dPip = num_hypot ops (num_sub ops (lm_x pip) (lm_x wrist))
                                (num_sub ops (lm_y pip) (lm_y wrist))
                   in isHandOpenIn_loop ops landmarks wrist (i + 1)
                        (if num_less ops dPip dTip then extendedCount + 1 else extendedCount))))
      else Some extendedCount)"
  by pat_completeness auto
termination
  by (relation "measure (\<lambda>(ops, landmarks, wrist, i, extendedCount). 4 - i)") auto

declare isHandOpenIn_loop.simps [simp del]

definition isHandOpenIn :: "'n Arith \<Rightarrow> 'n Landmark_of list \<Rightarrow> bool option" where
  "isHandOpenIn ops landmarks =
     do {
       wrist \<leftarrow> getAt landmarks 0;
       extendedCount \<leftarrow> isHandOpenIn_loop ops landmarks wrist 0 0;
       Some (extendedCount \<ge> 3)
     }"

text \<open>\<^verbatim>\<open>updateHandState(result, detectedMode)\<close>, as above.\<close>

definition updateHandStateIn ::
    "'n Arith \<Rightarrow> 'n Landmark_of list list \<Rightarrow> Mode \<Rightarrow> 'n Tracker_of \<Rightarrow> 'n Tracker_of option" where
  "updateHandStateIn ops landmarks detectedMode st =
     (if detectedMode = ZOOM \<and> length landmarks = 2 then
        do {
          hand0 \<leftarrow> getAt landmarks 0;
          hand1 \<leftarrow> getAt landmarks 1;
          h1 \<leftarrow> getAt hand0 0;
          h2 \<leftarrow> getAt hand1 0;
          let dx = num_sub ops (lm_x h1) (lm_x h2);
          let dy = num_sub ops (lm_y h1) (lm_y h2);
          let cx = num_div ops (num_add ops (lm_x h1) (lm_x h2)) (num_lit ops 2);
          let cy = num_div ops (num_add ops (lm_y h1) (lm_y h2)) (num_lit ops 2);
          Some (st\<lparr>handState :=
            \<lparr>pinchDistance = num_lit ops 1,
             handDistance = num_sqrt ops (num_add ops (num_mul ops dx dx) (num_mul ops dy dy)),
             isPinched = False,
             position =
               \<lparr>pos_x = num_mul ops (num_sub ops (num_lit ops 0.5) cx) (num_lit ops 2),
                pos_y = num_mul ops (num_sub ops cy (num_lit ops 0.5)) (num_lit ops 2)\<rparr>,
             isDetected = True, mode = detectedMode\<rparr>\<rparr>)
        }
      else if length landmarks > 0 then
        do {
          lm \<leftarrow> getAt landmarks 0;
          thumb \<leftarrow> getAt lm 4;
          index \<leftarrow> getAt lm 8;
          wrist \<leftarrow> getAt lm 0;
          let dx = num_sub ops (lm_x thumb) (lm_x index);
          let dy = num_sub ops (lm_y thumb) (lm_y index);
          let dz = num_sub ops (lm_z thumb) (lm_z index);
          let pinchDistance' =
            num_sqrt ops (num_add ops (num_add ops (num_mul ops dx dx) (num_mul ops dy dy))
              (num_mul ops dz dz));
          let rawX = num_div ops (num_add ops (lm_x thumb) (lm_x wrist)) (num_lit ops 2);
          let rawY = num_div ops (num_add ops (lm_y thumb) (lm_y wrist)) (num_lit ops 2);
          Some (st\<lparr>handState :=
            \<lparr>pinchDistance = pinchDistance', handDistance = num_lit ops 0,
             isPinched = num_less ops pinchDistance' (num_lit ops PINCH_THRESHOLD),
             position =
               \<lparr>pos_x = num_mul ops (num_sub ops (num_lit ops 0.5) rawX) (num_lit ops 2),
                pos_y = num_mul ops (num_sub ops rawY (num_lit ops 0.5)) (num_lit ops 2)\<rparr>,
             isDetected = True, mode = detectedMode\<rparr>\<rparr>)
        }
      else
        Some (st\<lparr>handState :=
          \<lparr>pinchDistance = num_lit ops 1, handDistance = num_lit ops 0, isPinched = False,
           position = \<lparr>pos_x = num_lit ops 0, pos_y = num_lit ops 0\<rparr>,
           isDetected = True, mode = detectedMode\<rparr>\<rparr>))"

definition finishIn :: "'n Tracker_of \<Rightarrow> 'n Tracker_of option \<Rightarrow> Completion \<times> 'n Tracker_of" where
  "finishIn st r = (case r of None \<Rightarrow> (Threw, st) | Some st' \<Rightarrow> (Returned, st'))"

text \<open>One call of \<^verbatim>\<open>predictWebcam\<close>, as above.\<close>

definition predictWebcamIn ::
    "'n Arith \<Rightarrow> bool \<Rightarrow> 'n Landmark_of list list \<Rightarrow> 'n Tracker_of
      \<Rightarrow> Completion \<times> 'n Tracker_of" where
  "predictWebcamIn ops ready landmarks st =
     (if \<not> ready then (Returned, st)
      else if length landmarks > 0 then
        (if length landmarks = 2 then
           (case do {
                   hand0 \<leftarrow> getAt landmarks 0;
                   hand1 \<leftarrow> getAt landmarks 1;
                   h1 \<leftarrow> getAt hand0 0;
                   h2 \<leftarrow> getAt hand1 0;
                   hand1Open \<leftarrow> isHandOpenIn ops hand0;
                   hand2Open \<leftarrow> isHandOpenIn ops hand1;
                   Some (h1, h2, hand1Open, hand2Open)
                 } of
              None \<Rightarrow> (Threw, st)
            | Some (h1, h2, hand1Open, hand2Open) \<Rightarrow>
                (let dx = num_sub ops (lm_x h1) (lm_x h2);
                     dy = num_sub ops (lm_y h1) (lm_y h2);
                     dist = num_sqrt ops (num_add ops (num_mul ops dx dx) (num_mul ops dy dy));
                     bothHandsOpen = (hand1Open \<and> hand2Open);
                     bothHandsClosed = (\<not> hand1Open \<and> \<not> hand2Open);
                     st1 = (if \<not> isZoomActive st then
                              (if num_less ops dist (num_lit ops ZOOM_ACTIVATION_THRESHOLD)
                                  \<and> bothHandsClosed
                               then st\<lparr>isZoomActive := True\<rparr> else st)
                            else
                              (if bothHandsOpen then st\<lparr>isZoomActive := False\<rparr> else st))
                 in if isZoomActive st1
                    then finishIn st1 (updateHandStateIn ops landmarks ZOOM st1)
                    else finishIn st1 (updateHandStateIn ops landmarks IDLE st1)))
         else
           (let st1 = st\<lparr>isZoomActive := False\<rparr>
            in case do {
                      hand \<leftarrow> getAt landmarks 0;
                      thumb \<leftarrow> getAt hand 4;
                      index \<leftarrow> getAt hand 8;
                      Some (thumb, index)
                    } of
                 None \<Rightarrow> (Threw, st1)
               | Some (thumb, index) \<Rightarrow>
                   (let dx = num_sub ops (lm_x thumb) (lm_x index);
                        dy = num_sub ops (lm_y thumb) (lm_y index);
                        dz = num_sub ops (lm_z thumb) (lm_z index);
                        currentDist =
                          num_sqrt ops
                            (num_add ops (num_add ops (num_mul ops dx dx) (num_mul ops dy dy))
                              (num_mul ops dz dz));
                        isPinched' = num_less ops currentDist (num_lit ops PINCH_THRESHOLD)
                    in finishIn st1
                         (updateHandStateIn ops landmarks
                            (if isPinched' then ROTATE else IDLE) st1))))
      else (Returned, st\<lparr>isZoomActive := False, handState := INITIAL_HAND_STATE_In ops\<rparr>))"

section \<open>SceneContent: the per-frame animator\<close>

text \<open>\<^verbatim>\<open>THREE.MathUtils.lerp(x, y, t)\<close> of the rendering library, which is \<^verbatim>\<open>(1 - t) * x + t * y\<close>.\<close>

definition lerp :: "real \<Rightarrow> real \<Rightarrow> real \<Rightarrow> real" where
  "lerp x y t = (1 - t) * x + t * y"

definition lerpFactor :: real where
  "lerpFactor = 0.1"

text \<open>
  The \<^verbatim>\<open>x\<close> and \<^verbatim>\<open>y\<close> angles of a rotation, the main group of the scene with its rotation and
  uniform scale, and the animator's state: \<^verbatim>\<open>currentRotation.current\<close>, \<^verbatim>\<open>currentScale.current\<close>
  and \<^verbatim>\<open>groupRef.current\<close>, which is \<^verbatim>\<open>null\<close> until the group is mounted.
\<close>

record Rotation =
  rot_x :: real
  rot_y :: real

record Group =
  rotation :: Rotation
  scalar :: real

record Animator =
  currentRotation :: Rotation
  currentScale :: real
  groupRef :: "Group option"

text \<open>The target scale computed in the ZOOM branch of the frame callback.\<close>

definition zoomTargetScale :: "real \<Rightarrow> real" where
  "zoomTargetScale handDistance' =
     (let normalizedDist = max 0 (min 1 ((handDistance' - 0.2) * 2));
          targetScale = 0.8 + (normalizedDist * 3.2)
      in targetScale)"

text \<open>
  The callback given to \<^verbatim>\<open>useFrame\<close>, on the interaction state read from the shared ref, the
  elapsed time and the frame delta. The decorative meshes (grid, atmosphere, rings, particles)
  have refs of their own and are left out.
\<close>

definition useFrame :: "HandState \<Rightarrow> real \<Rightarrow> real \<Rightarrow> Animator \<Rightarrow> Animator" where
  "useFrame hand time delta st =
     (let st1 =
            (if \<not> isDetected hand then
               (case groupRef st of
                  None \<Rightarrow> st
                | Some g \<Rightarrow>
                    st\<lparr>groupRef := Some (g\<lparr>rotation :=
                      \<lparr>rot_x = sin (time * 0.1) * 0.05,
                       rot_y = rot_y (rotation g) + delta * 0.05\<rparr>\<rparr>)\<rparr>)
             else st);
          st2 =
            (if isDetected hand then
               (let s1 =
                      (if mode hand = ZOOM then
                         st1\<lparr>currentScale :=
                           lerp (currentScale st1) (zoomTargetScale (handDistance hand)) lerpFactor\<rparr>
                       else st1)
                in if mode hand = ROTATE then
                     (let targetRotX = pos_y (position hand) * 2.5;
                          targetRotY = pos_x (position hand) * 2.5
                      in s1\<lparr>currentRotation :=
                           \<lparr>rot_x = lerp (rot_x (currentRotation s1)) targetRotX lerpFactor,
                            rot_y = lerp (rot_y (currentRotation s1)) targetRotY lerpFactor\<rparr>\<rparr>)
                   else s1)
             else st1)
      in case groupRef st2 of
           None \<Rightarrow> st2
         | Some g \<Rightarrow>
             (let g1 = g\<lparr>scalar := currentScale st2\<rparr>;
                  g2 =
                    (if isDetected hand \<and> mode hand = ROTATE then
                       g1\<lparr>rotation :=
                         \<lparr>rot_x = rot_x (currentRotation st2), rot_y = rot_y (currentRotation st2)\<rparr>\<rparr>
                     else if isDetected hand then
                       g1\<lparr>rotation := (rotation g1)\<lparr>rot_x := lerp (rot_x (rotation g1)) 0 0.05\<rparr>\<rparr>
                     else g1)
              in st2\<lparr>groupRef := Some g2\<rparr>))"

section \<open>The specification's vocabulary\<close>

text \<open>The 2D distance from the wrist (landmark 0) of a hand to its landmark \<open>i\<close>.\<close>

definition wristDistance2D :: "Hand \<Rightarrow> nat \<Rightarrow> real" where
  "wristDistance2D h i =
     sqrt ((lm_x (h ! i) - lm_x (h ! 0))\<^sup>2 + (lm_y (h ! i) - lm_y (h ! 0))\<^sup>2)"

text \<open>
  The four fingers as (fingertip, joint before the tip): index, middle, ring, pinky. A finger
  is extended when its tip is farther from the wrist than its joint.
\<close>

definition fingers :: "(nat \<times> nat) list" where
  "fingers = [(8, 6), (12, 10), (16, 14), (20, 18)]"

definition fingerExtended :: "Hand \<Rightarrow> nat \<times> nat \<Rightarrow> bool" where
  "fingerExtended h f = (case f of (tip, pip) \<Rightarrow> wristDistance2D h tip > wristDistance2D h pip)"

definition extendedFingers :: "Hand \<Rightarrow> nat" where
  "extendedFingers h = length (filter (fingerExtended h) fingers)"

text \<open>The 2D distance between the wrists of two hands.\<close>

definition wristDistance :: "Hand \<Rightarrow> Hand \<Rightarrow> real" where
  "wristDistance a b =
     sqrt ((lm_x (a ! 0) - lm_x (b ! 0))\<^sup>2 + (lm_y (a ! 0) - lm_y (b ! 0))\<^sup>2)"

text \<open>The 3D distance between thumb tip (landmark 4) and index tip (landmark 8) of a hand.\<close>

definition thumbIndexDistance :: "Hand \<Rightarrow> real" where
  "thumbIndexDistance h =
     sqrt ((lm_x (h ! 4) - lm_x (h ! 8))\<^sup>2 + (lm_y (h ! 4) - lm_y (h ! 8))\<^sup>2
           + (lm_z (h ! 4) - lm_z (h ! 8))\<^sup>2)"

text \<open>The mapping convention for positions, from raw frame coordinates \<open>(rx, ry)\<close>.\<close>

definition mapPosition :: "real \<Rightarrow> real \<Rightarrow> Position" where
  "mapPosition rx ry = \<lparr>pos_x = (0.5 - rx) * 2, pos_y = (ry - 0.5) * 2\<rparr>"

text \<open>The raw midpoint of the two wrists, and of thumb tip and wrist of one hand.\<close>

definition wristMidpoint :: "Hand \<Rightarrow> Hand \<Rightarrow> real \<times> real" where
  "wristMidpoint a b = ((lm_x (a ! 0) + lm_x (b ! 0)) / 2, (lm_y (a ! 0) + lm_y (b ! 0)) / 2)"

definition thumbWristMidpoint :: "Hand \<Rightarrow> real \<times> real" where
  "thumbWristMidpoint h = ((lm_x (h ! 4) + lm_x (h ! 0)) / 2, (lm_y (h ! 4) + lm_y (h ! 0)) / 2)"

text \<open>Clamping to the unit interval, and the linear map of a range \<open>[a, b]\<close> onto \<open>[c, d]\<close>.\<close>

definition clamp01 :: "real \<Rightarrow> real" where
  "clamp01 v = (if v < 0 then 0 else if v > 1 then 1 else v)"

definition linearRangeMap :: "real \<Rightarrow> real \<Rightarrow> real \<Rightarrow> real \<Rightarrow> real \<Rightarrow> real" where
  "linearRangeMap a b c d v = c + (v - a) / (b - a) * (d - c)"

text \<open>A hand is open when at least three of its four fingers are extended.\<close>

definition handOpen :: "Hand \<Rightarrow> bool" where
  "handOpen h \<longleftrightarrow> 3 \<le> extendedFingers h"

text \<open>
  The latch after a frame with the two hands \<open>a\<close> and \<open>b\<close>: armed from off by two fists closer
  than 0.2, disarmed from on by two open hands.
\<close>

definition latchAfter :: "bool \<Rightarrow> Hand \<Rightarrow> Hand \<Rightarrow> bool" where
  "latchAfter active a b =
     (if \<not> active then wristDistance a b < 0.2 \<and> \<not> handOpen a \<and> \<not> handOpen b
      else \<not> (handOpen a \<and> handOpen b))"

text \<open>The interaction state by the single-hand formulas on hand \<open>h\<close>, with a given mode.\<close>

definition singleHandState :: "Hand \<Rightarrow> Mode \<Rightarrow> HandState" where
  "singleHandState h m =
     \<lparr>pinchDistance = thumbIndexDistance h, handDistance = 0,
      isPinched = (thumbIndexDistance h < 0.05),
      position = mapPosition (fst (thumbWristMidpoint h)) (snd (thumbWristMidpoint h)),
      isDetected = True, mode = m\<rparr>"

text \<open>The interaction state of ZOOM mode on the two hands \<open>a\<close> and \<open>b\<close>.\<close>

definition zoomHandState :: "Hand \<Rightarrow> Hand \<Rightarrow> HandState" where
  "zoomHandState a b =
     \<lparr>pinchDistance = 1, handDistance = wristDistance a b, isPinched = False,
      position = mapPosition (fst (wristMidpoint a b)) (snd (wristMidpoint a b)),
      isDetected = True, mode = ZOOM\<rparr>"

text \<open>
  The same vocabulary in a given arithmetic: the wrist-to-landmark distance that
  \<^verbatim>\<open>isHandOpen\<close> computes, the extended fingers, the computed distance between two wrists and
  between thumb tip and index tip, the mapped position and the thumb-wrist midpoint.
\<close>

definition wristDistance2DIn :: "'n Arith \<Rightarrow> 'n Landmark_of list \<Rightarrow> nat \<Rightarrow> 'n" where
  "wristDistance2DIn ops h i =
     num_hypot ops (num_sub ops (lm_x (h ! i)) (lm_x (h ! 0)))
       (num_sub ops (lm_y (h ! i)) (lm_y (h ! 0)))"

definition fingerExtendedIn :: "'n Arith \<Rightarrow> 'n Landmark_of list \<Rightarrow> nat \<times> nat \<Rightarrow> bool" where
  "fingerExtendedIn ops h f =
     (case f of (tip, pip) \<Rightarrow>
        num_less ops (wristDistance2DIn ops h pip) (wristDistance2DIn ops h tip))"

definition wristDistanceIn :: "'n Arith \<Rightarrow> 'n Landmark_of list \<Rightarrow> 'n Landmark_of list \<Rightarrow> 'n" where
  "wristDistanceIn ops a b =
     (let dx = num_sub ops (lm_x (a ! 0)) (lm_x (b ! 0));
          dy = num_sub ops (lm_y (a ! 0)) (lm_y (b ! 0))
      in num_sqrt ops (num_add ops (num_mul ops dx dx) (num_mul ops dy dy)))"

definition thumbIndexDistanceIn :: "'n Arith \<Rightarrow> 'n Landmark_of list \<Rightarrow> 'n" where
  "thumbIndexDistanceIn ops h =
     (let dx = num_sub ops (lm_x (h ! 4)) (lm_x (h ! 8));
          dy = num_sub ops (lm_y (h ! 4)) (lm_y (h ! 8));
          dz = num_sub ops (lm_z (h ! 4)) (lm_z (h ! 8))
      in num_sqrt ops
           (num_add ops (num_add ops (num_mul ops dx dx) (num_mul ops dy dy))
             (num_mul ops dz dz)))"

definition mapPositionIn :: "'n Arith \<Rightarrow> 'n \<Rightarrow> 'n \<Rightarrow> 'n Position_of" where
  "mapPositionIn ops rx ry =
     \<lparr>pos_x = num_mul ops (num_sub ops (num_lit ops 0.5) rx) (num_lit ops 2),
      pos_y = num_mul ops (num_sub ops ry (num_lit ops 0.5)) (num_lit ops 2)\<rparr>"

definition thumbWristMidpointIn :: "'n Arith \<Rightarrow> 'n Landmark_of list \<Rightarrow> 'n \<times> 'n" where
  "thumbWristMidpointIn ops h =
     (num_div ops (num_add ops (lm_x (h ! 4)) (lm_x (h ! 0))) (num_lit ops 2),
      num_div ops (num_add ops (lm_y (h ! 4)) (lm_y (h ! 0))) (num_lit ops 2))"

section \<open>Sample frames\<close>

definition pt :: "real \<Rightarrow> real \<Rightarrow> real \<Rightarrow> Landmark" where
  "pt a b c = \<lparr>lm_x = a, lm_y = b, lm_z = c\<rparr>"

text \<open>
  A hand of 21 landmarks: the thumb tip at index 4, the joints before the tips (6, 10, 14, 18)
  all at \<open>pip\<close>, the four fingertips (8, 12, 16, 20) as given, every other landmark at the wrist.
\<close>

definition handOf :: "Landmark \<Rightarrow> Landmark \<Rightarrow> Landmark \<Rightarrow> Landmark \<Rightarrow> Landmark \<Rightarrow> Landmark
    \<Rightarrow> Landmark \<Rightarrow> Hand" where
  "handOf wrist thumb pip indexTip middleTip ringTip pinkyTip =
     [wrist, wrist, wrist, wrist, thumb, wrist, pip, wrist, indexTip, wrist, pip, wrist,
      middleTip, wrist, pip, wrist, ringTip, wrist, pip, wrist, pinkyTip]"

text \<open>A fist and an open hand with the wrist at \<open>(a, b)\<close>, thumb tip and index tip apart.\<close>

definition fistAt :: "real \<Rightarrow> real \<Rightarrow> Hand" where
  "fistAt a b =
     handOf (pt a b 0) (pt (a + 0.1) b 0) (pt a (b + 0.1) 0)
       (pt a (b + 0.05) 0) (pt a (b + 0.05) 0) (pt a (b + 0.05) 0) (pt a (b + 0.05) 0)"

definition openAt :: "real \<Rightarrow> real \<Rightarrow> Hand" where
  "openAt a b =
     handOf (pt a b 0) (pt (a + 0.1) b 0) (pt a (b + 0.1) 0)
       (pt a (b + 0.2) 0) (pt a (b + 0.2) 0) (pt a (b + 0.2) 0) (pt a (b + 0.2) 0)"

text \<open>A fist whose thumb tip touches its index tip.\<close>

definition pinchedFistAt :: "real \<Rightarrow> real \<Rightarrow> Hand" where
  "pinchedFistAt a b =
     handOf (pt a b 0) (pt a (b + 0.05) 0) (pt a (b + 0.1) 0)
       (pt a (b + 0.05) 0) (pt a (b + 0.05) 0) (pt a (b + 0.05) 0) (pt a (b + 0.05) 0)"

text \<open>A hand with the wrist at \<open>(0.5, 0.7)\<close> and the given thumb tip and index tip.\<close>

definition handWith :: "Landmark \<Rightarrow> Landmark \<Rightarrow> Hand" where
  "handWith thumb index =
     handOf (pt 0.5 0.7 0) thumb (pt 0.5 0.6 0) index (pt 0.5 0.5 0) (pt 0.5 0.5 0) (pt 0.5 0.5 0)"

text \<open>
  An arithmetic that rounds: \<open>Math.sqrt\<close> and \<open>Math.hypot\<close> round down to a multiple of
  \<open>1/4\<close>, everything else is exact.
\<close>

definition coarse :: "real Arith" where
  "coarse =
     exact\<lparr>num_sqrt := (\<lambda>x. of_int \<lfloor>sqrt x * 4\<rfloor> / 4),
           num_hypot := (\<lambda>a b. of_int \<lfloor>hypot a b * 4\<rfloor> / 4)\<rparr>"

definition idleTracker :: Tracker where
  "idleTracker = \<lparr>isZoomActive = False, handState = INITIAL_HAND_STATE\<rparr>"

definition armedTracker :: Tracker where
  "armedTracker = \<lparr>isZoomActive = True, handState = INITIAL_HAND_STATE\<rparr>"

text \<open>Hands with exactly three, and exactly two, of the four fingers extended.\<close>

definition threeFingerHand :: Hand where
  "threeFingerHand =
     handOf (pt 0.5 0.5 0) (pt 0.6 0.5 0) (pt 0.5 0.6 0)
       (pt 0.5 0.7 0) (pt 0.5 0.7 0) (pt 0.5 0.7 0) (pt 0.5 0.55 0)"

definition twoFingerHand :: Hand where
  "twoFingerHand =
     handOf (pt 0.5 0.5 0) (pt 0.6 0.5 0) (pt 0.5 0.6 0)
       (pt 0.5 0.7 0) (pt 0.5 0.7 0) (pt 0.5 0.6 0) (pt 0.5 0.55 0)"

text \<open>
  An animator with a mounted group, and a ZOOM interaction state at hand distance \<open>d\<close>.
\<close>

definition sampleAnimator :: Animator where
  "sampleAnimator =
     \<lparr>currentRotation = \<lparr>rot_x = 0, rot_y = 0\<rparr>, currentScale = 1.5,
      groupRef = Some \<lparr>rotation = \<lparr>rot_x = 1, rot_y = 2\<rparr>, scalar = 1.5\<rparr>\<rparr>"

definition zoomingHand :: "real \<Rightarrow> HandState" where
  "zoomingHand d =
     \<lparr>pinchDistance = 1, handDistance = d, isPinched = False,
      position = \<lparr>pos_x = 0, pos_y = 0\<rparr>, isDetected = True, mode = ZOOM\<rparr>"

section \<open>Array reads and the openness loop\<close>

lemma getAt_Some [simp]: "i < length xs \<Longrightarrow> getAt xs i = Some (xs ! i)"
  by (simp add: getAt_def)

lemma getAt_None [simp]: "length xs \<le> i \<Longrightarrow> getAt xs i = None"
  by (simp add: getAt_def)

lemma hypot_wrist:
  "hypot (lm_x (h ! i) - lm_x (h ! 0)) (lm_y (h ! i) - lm_y (h ! 0)) = wristDistance2D h i"
  by (simp add: hypot_def wristDistance2D_def power2_eq_square)

lemma loop_end: "isHandOpen_loop h w 4 c = Some c"
  using isHandOpen_loop.simps [of h w 4 c] by simp

lemma loop_step:
  assumes "i < 4" "length h = 21"
  shows "isHandOpen_loop h (h ! 0) i c =
         isHandOpen_loop h (h ! 0) (Suc i) (if fingerExtended h (fingers ! i) then Suc c else c)"
proof -
  from assms(1) consider "i = 0" | "i = 1" | "i = 2" | "i = 3" by arith
  then show ?thesis
  proof cases
    case 1
    show ?thesis unfolding 1
      by (simp add: isHandOpen_loop.simps [of h "h ! 0" 0 c] assms tips_def pips_def fingers_def
          fingerExtended_def hypot_wrist Let_def)
  next
    case 2
    show ?thesis unfolding 2
      by (simp add: isHandOpen_loop.simps [of h "h ! 0" "Suc 0" c] assms tips_def pips_def fingers_def
          fingerExtended_def hypot_wrist Let_def)
  next
    case 3
    show ?thesis unfolding 3
      by (simp add: isHandOpen_loop.simps [of h "h ! 0" 2 c] assms tips_def pips_def fingers_def
          fingerExtended_def hypot_wrist Let_def)
  next
    case 4
    show ?thesis unfolding 4
      by (simp add: isHandOpen_loop.simps [of h "h ! 0" 3 c] assms tips_def pips_def fingers_def
          fingerExtended_def hypot_wrist Let_def)
  qed
qed

lemma length_fingers: "length fingers = 4"
  by (simp add: fingers_def)

lemma loop_from:
  assumes "length h = 21"
  shows "4 - i = n \<Longrightarrow> i \<le> 4 \<Longrightarrow>
         isHandOpen_loop h (h ! 0) i c =
         Some (c + length (filter (fingerExtended h) (drop i fingers)))"
proof (induction n arbitrary: i c)
  case 0
  then have "i = 4" by simp
  then show ?case by (simp add: loop_end length_fingers)
next
  case (Suc n)
  then have i: "i < 4" by simp
  have d: "drop i fingers = fingers ! i # drop (Suc i) fingers"
    using i by (simp add: Cons_nth_drop_Suc length_fingers)
  have "isHandOpen_loop h (h ! 0) (Suc i) c' =
        Some (c' + length (filter (fingerExtended h) (drop (Suc i) fingers)))" for c'
    using Suc.prems i by (intro Suc.IH) simp_all
  then show ?case
    by (simp add: loop_step [OF i assms] d)
qed

lemma loop_count:
  assumes "length h = 21"
  shows "isHandOpen_loop h (h ! 0) 0 0 = Some (extendedFingers h)"
  using loop_from [OF assms, of 0 4 0] by (simp add: extendedFingers_def)

lemma isHandOpen_full:
  assumes "length h = 21"
  shows "isHandOpen h = Some (3 \<le> extendedFingers h)"
  using assms by (simp add: isHandOpen_def loop_count)

section \<open>Sample hands\<close>

lemma length_handOf [simp]: "length (handOf w th p t1 t2 t3 t4) = 21"
  by (simp add: handOf_def)

lemma nth_handOf [simp]:
  "handOf w th p t1 t2 t3 t4 ! 0 = w"
  "handOf w th p t1 t2 t3 t4 ! 4 = th"
  "handOf w th p t1 t2 t3 t4 ! 6 = p"
  "handOf w th p t1 t2 t3 t4 ! 8 = t1"
  "handOf w th p t1 t2 t3 t4 ! 10 = p"
  "handOf w th p t1 t2 t3 t4 ! 12 = t2"
  "handOf w th p t1 t2 t3 t4 ! 14 = p"
  "handOf w th p t1 t2 t3 t4 ! 16 = t3"
  "handOf w th p t1 t2 t3 t4 ! 18 = p"
  "handOf w th p t1 t2 t3 t4 ! 20 = t4"
  by (simp_all add: handOf_def)

lemma pt_sel [simp]: "lm_x (pt a b c) = a" "lm_y (pt a b c) = b" "lm_z (pt a b c) = c"
  by (simp_all add: pt_def)

lemma extendedFingers_fistAt: "extendedFingers (fistAt a b) = 0"
  by (simp add: extendedFingers_def fingers_def fingerExtended_def wristDistance2D_def
      fistAt_def power2_eq_square)

lemma extendedFingers_openAt: "extendedFingers (openAt a b) = 4"
  by (simp add: extendedFingers_def fingers_def fingerExtended_def wristDistance2D_def
      openAt_def power2_eq_square)

lemma length_fistAt [simp]: "length (fistAt a b) = 21"
  by (simp add: fistAt_def)

lemma length_openAt [simp]: "length (openAt a b) = 21"
  by (simp add: openAt_def)

lemma isHandOpen_fistAt [simp]: "isHandOpen (fistAt a b) = Some False"
  by (simp add: isHandOpen_full extendedFingers_fistAt)

lemma isHandOpen_openAt [simp]: "isHandOpen (openAt a b) = Some True"
  by (simp add: isHandOpen_full extendedFingers_openAt)

lemma sqrt_samples [simp]:
  "sqrt (1 / 100) = 1 / 10" "sqrt (9 / 25) = 3 / 5" "sqrt (1 / 400) = 1 / 20"
  "sqrt (1 / 625) = 1 / 25" "sqrt (9 / 2500) = 3 / 50"
  by (rule real_sqrt_unique; simp add: power2_eq_square)+

lemma length_pinchedFistAt [simp]: "length (pinchedFistAt a b) = 21"
  by (simp add: pinchedFistAt_def)

lemma length_handWith [simp]: "length (handWith t i) = 21"
  by (simp add: handWith_def)

lemma wrist_samples [simp]:
  "fistAt a b ! 0 = pt a b 0" "openAt a b ! 0 = pt a b 0" "pinchedFistAt a b ! 0 = pt a b 0"
  "handWith t i ! 0 = pt 0.5 0.7 0"
  by (simp_all add: fistAt_def openAt_def pinchedFistAt_def handWith_def)

lemma thumb_samples [simp]:
  "fistAt a b ! 4 = pt (a + 0.1) b 0" "openAt a b ! 4 = pt (a + 0.1) b 0"
  "pinchedFistAt a b ! 4 = pt a (b + 0.05) 0" "handWith t i ! 4 = t"
  by (simp_all add: fistAt_def openAt_def pinchedFistAt_def handWith_def)

lemma index_samples [simp]:
  "fistAt a b ! 8 = pt a (b + 0.05) 0" "openAt a b ! 8 = pt a (b + 0.2) 0"
  "pinchedFistAt a b ! 8 = pt a (b + 0.05) 0" "handWith t i ! 8 = i"
  by (simp_all add: fistAt_def openAt_def pinchedFistAt_def handWith_def)

lemma handOpen_samples [simp]:
  "handOpen (fistAt a b) = False" "handOpen (openAt a b) = True"
  "handOpen (pinchedFistAt a b) = False"
  by (simp_all add: handOpen_def extendedFingers_fistAt extendedFingers_openAt)
     (simp add: extendedFingers_def fingers_def fingerExtended_def wristDistance2D_def
       pinchedFistAt_def power2_eq_square)

section \<open>The branches of predictWebcam\<close>

lemma isHandOpen_handOpen: "length h = 21 \<Longrightarrow> isHandOpen h = Some (handOpen h)"
  by (simp add: isHandOpen_full handOpen_def)

lemma updateHandState_single:
  assumes "landmarks \<noteq> []" "m \<noteq> ZOOM \<or> length landmarks \<noteq> 2" "length (landmarks ! 0) = 21"
  shows "updateHandState landmarks m st =
         Some (st\<lparr>handState := singleHandState (landmarks ! 0) m\<rparr>)"
  using assms
  by (auto simp: updateHandState_def singleHandState_def thumbIndexDistance_def mapPosition_def
      thumbWristMidpoint_def PINCH_THRESHOLD_def power2_eq_square Let_def)

lemma updateHandState_zoom:
  assumes "length a = 21" "length b = 21"
  shows "updateHandState [a, b] ZOOM st = Some (st\<lparr>handState := zoomHandState a b\<rparr>)"
  using assms
  by (simp add: updateHandState_def zoomHandState_def wristDistance_def mapPosition_def
      wristMidpoint_def power2_eq_square Let_def)

lemma predictWebcam_not_ready: "predictWebcam False landmarks st = (Returned, st)"
  by (simp add: predictWebcam_def)

lemma predictWebcam_none:
  "predictWebcam True [] st = (Returned, \<lparr>isZoomActive = False, handState = INITIAL_HAND_STATE\<rparr>)"
  by (simp add: predictWebcam_def)

lemma predictWebcam_latch_cleared:
  assumes "length landmarks \<noteq> 2"
  shows "isZoomActive (snd (predictWebcam True landmarks st)) = False"
  using assms
  by (auto simp: predictWebcam_def finish_def updateHandState_def Let_def
      split: option.splits Option.bind_splits)

lemma predictWebcam_single:
  assumes "landmarks \<noteq> []" "length landmarks \<noteq> 2" "length (landmarks ! 0) = 21"
  shows "predictWebcam True landmarks st =
         (Returned, \<lparr>isZoomActive = False,
            handState = singleHandState (landmarks ! 0)
              (if thumbIndexDistance (landmarks ! 0) < 0.05 then ROTATE else IDLE)\<rparr>)"
  using assms
  by (simp add: predictWebcam_def finish_def updateHandState_single Let_def
      thumbIndexDistance_def PINCH_THRESHOLD_def power2_eq_square)

lemma predictWebcam_two:
  assumes "length a = 21" "length b = 21"
  shows "predictWebcam True [a, b] st =
         (Returned,
          if latchAfter (isZoomActive st) a b
          then \<lparr>isZoomActive = True, handState = zoomHandState a b\<rparr>
          else \<lparr>isZoomActive = False, handState = singleHandState a IDLE\<rparr>)"
  using assms
  by (auto simp: predictWebcam_def finish_def updateHandState_single updateHandState_zoom Let_def
      isHandOpen_handOpen latchAfter_def wristDistance_def ZOOM_ACTIVATION_THRESHOLD_def
      power2_eq_square)

section \<open>The animator frame\<close>

lemma zoomTargetScale_clamp: "zoomTargetScale d = 0.8 + clamp01 ((d - 0.2) * 2) * 3.2"
  by (simp add: zoomTargetScale_def clamp01_def Let_def max_def min_def)

lemma useFrame_zoom_scale:
  assumes "isDetected hand" "mode hand = ZOOM"
  shows "currentScale (useFrame hand time delta st) =
         lerp (currentScale st) (zoomTargetScale (handDistance hand)) lerpFactor"
  using assms by (simp add: useFrame_def Let_def split: option.splits)

lemma useFrame_relax:
  assumes "isDetected hand" "mode hand \<noteq> ROTATE" "groupRef st = Some g"
  shows "map_option rotation (groupRef (useFrame hand time delta st)) =
         Some \<lparr>rot_x = lerp (rot_x (rotation g)) 0 0.05, rot_y = rot_y (rotation g)\<rparr>"
  using assms by (simp add: useFrame_def Let_def split: option.splits)

section \<open>The classifier in a given arithmetic\<close>

text \<open>
  The openness loop and the branches of \<^verbatim>\<open>predictWebcam\<close> for hands of 21 landmarks, with no
  assumption on the arithmetic.
\<close>

lemma loopIn_end: "isHandOpenIn_loop ops h w 4 c = Some c"
  using isHandOpenIn_loop.simps [of ops h w 4 c] by simp

lemma loopIn_step:
  assumes "i < 4" "length h = 21"
  shows "isHandOpenIn_loop ops h (h ! 0) i c =
         isHandOpenIn_loop ops h (h ! 0) (Suc i)
           (if fingerExtendedIn ops h (fingers ! i) then Suc c else c)"
proof -
  from assms(1) consider "i = 0" | "i = 1" | "i = 2" | "i = 3" by arith
  then show ?thesis
  proof cases
    case 1
    show ?thesis unfolding 1
      by (simp add: isHandOpenIn_loop.simps [of ops h "h ! 0" 0 c] assms tips_def pips_def
          fingers_def fingerExtendedIn_def wristDistance2DIn_def Let_def)
  next
    case 2
    show ?thesis unfolding 2
      by (simp add: isHandOpenIn_loop.simps [of ops h "h ! 0" "Suc 0" c] assms tips_def pips_def
          fingers_def fingerExtendedIn_def wristDistance2DIn_def Let_def)
  next
    case 3
    show ?thesis unfolding 3
      by (simp add: isHandOpenIn_loop.simps [of ops h "h ! 0" 2 c] assms tips_def pips_def
          fingers_def fingerExtendedIn_def wristDistance2DIn_def Let_def)
  next
    case 4
    show ?thesis unfolding 4
      by (simp add: isHandOpenIn_loop.simps [of ops h "h ! 0" 3 c] assms tips_def pips_def
          fingers_def fingerExtendedIn_def wristDistance2DIn_def Let_def)
  qed
qed

lemma loopIn_from:
  assumes "length h = 21"
  shows "4 - i = n \<Longrightarrow> i \<le> 4 \<Longrightarrow>
         isHandOpenIn_loop ops h (h ! 0) i c =
         Some (c + length (filter (fingerExtendedIn ops h) (drop i fingers)))"
proof (induction n arbitrary: i c)
  case 0
  then have "i = 4" by simp
  then show ?case by (simp add: loopIn_end length_fingers)
next
  case (Suc n)
  then have i: "i < 4" by simp
  have d: "drop i fingers = fingers ! i # drop (Suc i) fingers"
    using i by (simp add: Cons_nth_drop_Suc length_fingers)
  have "isHandOpenIn_loop ops h (h ! 0) (Suc i) c' =
        Some (c' + length (filter (fingerExtendedIn ops h) (drop (Suc i) fingers)))" for c'
    using Suc.prems i by (intro Suc.IH) simp_all
  then show ?case
    by (simp add: loopIn_step [OF i assms] d)
qed

lemma loopIn_count:
  assumes "length h = 21"
  shows "isHandOpenIn_loop ops h (h ! 0) 0 0 =
         Some (length (filter (fingerExtendedIn ops h) fingers))"
  using loopIn_from [OF assms, of 0 4 ops 0] by simp

lemma isHandOpenIn_full:
  assumes "length h = 21"
  shows "isHandOpenIn ops h = Some (3 \<le> length (filter (fingerExtendedIn ops h) fingers))"
  using assms by (simp add: isHandOpenIn_def loopIn_count)

lemma updateHandStateIn_single:
  assumes "landmarks \<noteq> []" "m \<noteq> ZOOM \<or> length landmarks \<noteq> 2" "length (landmarks ! 0) = 21"
  shows "updateHandStateIn ops landmarks m st =
         Some (st\<lparr>handState :=
           \<lparr>pinchDistance = thumbIndexDistanceIn ops (landmarks ! 0),
            handDistance = num_lit ops 0,
            isPinched = num_less ops (thumbIndexDistanceIn ops (landmarks ! 0))
                          (num_lit ops PINCH_THRESHOLD),
            position = mapPositionIn ops (fst (thumbWristMidpointIn ops (landmarks ! 0)))
                         (snd (thumbWristMidpointIn ops (landmarks ! 0))),
            isDetected = True, mode = m\<rparr>\<rparr>)"
  using assms
  by (auto simp: updateHandStateIn_def thumbIndexDistanceIn_def mapPositionIn_def
      thumbWristMidpointIn_def Let_def)

lemma updateHandStateIn_zoom:
  assumes "length a = 21" "length b = 21"
  shows "updateHandStateIn ops [a, b] ZOOM st =
         Some (st\<lparr>handState :=
           \<lparr>pinchDistance = num_lit ops 1, handDistance = wristDistanceIn ops a b,
            isPinched = False,
            position =
              mapPositionIn ops
                (num_div ops (num_add ops (lm_x (a ! 0)) (lm_x (b ! 0))) (num_lit ops 2))
                (num_div ops (num_add ops (lm_y (a ! 0)) (lm_y (b ! 0))) (num_lit ops 2)),
            isDetected = True, mode = ZOOM\<rparr>\<rparr>)"
  using assms
  by (simp add: updateHandStateIn_def wristDistanceIn_def mapPositionIn_def Let_def)

lemma predictWebcamIn_single:
  assumes "length h = 21"
  shows "predictWebcamIn ops True [h] st =
         (Returned, \<lparr>isZoomActive = False,
            handState =
              \<lparr>pinchDistance = thumbIndexDistanceIn ops h, handDistance = num_lit ops 0,
               isPinched = num_less ops (thumbIndexDistanceIn ops h) (num_lit ops PINCH_THRESHOLD),
               position = mapPositionIn ops (fst (thumbWristMidpointIn ops h))
                            (snd (thumbWristMidpointIn ops h)),
               isDetected = True,
               mode = (if num_less ops (thumbIndexDistanceIn ops h) (num_lit ops PINCH_THRESHOLD)
                       then ROTATE else IDLE)\<rparr>\<rparr>)"
  using assms
  by (simp add: predictWebcamIn_def finishIn_def updateHandStateIn_single Let_def)
     (simp add: thumbIndexDistanceIn_def Let_def)

lemma predictWebcamIn_latch:
  assumes "length a = 21" "length b = 21"
  shows "isZoomActive (snd (predictWebcamIn ops True [a, b] st)) =
         (if \<not> isZoomActive st
          then num_less ops (wristDistanceIn ops a b) (num_lit ops ZOOM_ACTIVATION_THRESHOLD)
               \<and> isHandOpenIn ops a = Some False \<and> isHandOpenIn ops b = Some False
          else \<not> (isHandOpenIn ops a = Some True \<and> isHandOpenIn ops b = Some True))"
  using assms
  by (auto simp: predictWebcamIn_def finishIn_def updateHandStateIn_single updateHandStateIn_zoom
      Let_def isHandOpenIn_full wristDistanceIn_def)

lemma predictWebcamIn_latch_off:
  assumes "length a = 21" "length b = 21"
    and "\<not> isZoomActive (snd (predictWebcamIn ops True [a, b] st))"
  shows "handState (snd (predictWebcamIn ops True [a, b] st)) =
           \<lparr>pinchDistance = thumbIndexDistanceIn ops a, handDistance = num_lit ops 0,
            isPinched = num_less ops (thumbIndexDistanceIn ops a) (num_lit ops PINCH_THRESHOLD),
            position = mapPositionIn ops (fst (thumbWristMidpointIn ops a))
                         (snd (thumbWristMidpointIn ops a)),
            isDetected = True, mode = IDLE\<rparr>"
  using assms
  by (auto simp: predictWebcamIn_def finishIn_def updateHandStateIn_single updateHandStateIn_zoom
      Let_def isHandOpenIn_full split: if_splits)

section \<open>The exact arithmetic\<close>

text \<open>
  In exact arithmetic the computed distances are the Euclidean ones, and the classifier in
  exact arithmetic is the classifier over the reals given first.
\<close>

lemma exact_sel [simp]:
  "num_lit exact r = r" "num_add exact = (+)" "num_sub exact = (-)" "num_mul exact = (*)"
  "num_div exact = (/)" "num_sqrt exact = sqrt" "num_hypot exact = hypot" "num_less exact = (<)"
  by (simp_all add: exact_def)

lemma wristDistance2DIn_exact [simp]: "wristDistance2DIn exact h i = wristDistance2D h i"
  by (simp add: wristDistance2DIn_def hypot_wrist)

lemma fingerExtendedIn_exact [simp]: "fingerExtendedIn exact h = fingerExtended h"
  by (rule ext) (simp add: fingerExtendedIn_def fingerExtended_def split: prod.splits)

lemma wristDistanceIn_exact [simp]: "wristDistanceIn exact a b = wristDistance a b"
  by (simp add: wristDistanceIn_def wristDistance_def power2_eq_square Let_def)

lemma thumbIndexDistanceIn_exact [simp]: "thumbIndexDistanceIn exact h = thumbIndexDistance h"
  by (simp add: thumbIndexDistanceIn_def thumbIndexDistance_def power2_eq_square Let_def)

lemma mapPositionIn_exact [simp]: "mapPositionIn exact rx ry = mapPosition rx ry"
  by (simp add: mapPositionIn_def mapPosition_def)

lemma thumbWristMidpointIn_exact [simp]: "thumbWristMidpointIn exact h = thumbWristMidpoint h"
  by (simp add: thumbWristMidpointIn_def thumbWristMidpoint_def)

lemma isHandOpenIn_loop_exact: "isHandOpenIn_loop exact h w i c = isHandOpen_loop h w i c"
proof (induction h w i c rule: isHandOpen_loop.induct)
  case (1 landmarks wrist i extendedCount)
  show ?case
    using 1
    by (subst isHandOpenIn_loop.simps, subst isHandOpen_loop.simps)
       (auto simp: Let_def split: option.splits)
qed

lemma isHandOpenIn_exact: "isHandOpenIn exact h = isHandOpen h"
  by (simp add: isHandOpenIn_def isHandOpen_def isHandOpenIn_loop_exact)

lemma updateHandStateIn_exact: "updateHandStateIn exact l m st = updateHandState l m st"
  by (simp add: updateHandStateIn_def updateHandState_def)

lemma finishIn_exact: "finishIn st r = finish st r"
  by (simp add: finishIn_def finish_def)

lemma predictWebcamIn_exact: "predictWebcamIn exact r l st = predictWebcam r l st"
  by (simp add: predictWebcamIn_def predictWebcam_def updateHandStateIn_exact isHandOpenIn_exact
      finishIn_exact INITIAL_HAND_STATE_In_def INITIAL_HAND_STATE_def Let_def
      cong: option.case_cong prod.case_cong if_cong)

section \<open>A rounding arithmetic\<close>

text \<open>Sample hands in the arithmetic that rounds roots down to quarters.\<close>

lemma coarse_sel [simp]:
  "num_lit coarse r = r" "num_add coarse = (+)" "num_sub coarse = (-)" "num_mul coarse = (*)"
  "num_div coarse = (/)" "num_less coarse = (<)"
  "num_sqrt coarse x = of_int \<lfloor>sqrt x * 4\<rfloor> / 4"
  "num_hypot coarse a b = of_int \<lfloor>hypot a b * 4\<rfloor> / 4"
  by (simp_all add: coarse_def exact_def)

lemma sqrt_more_samples [simp]: "sqrt (1 / 25) = 1 / 5"
  by (rule real_sqrt_unique; simp add: power2_eq_square)

lemma finger_samples [simp]:
  "fistAt a b ! 6 = pt a (b + 0.1) 0" "fistAt a b ! 10 = pt a (b + 0.1) 0"
  "fistAt a b ! 14 = pt a (b + 0.1) 0" "fistAt a b ! 18 = pt a (b + 0.1) 0"
  "fistAt a b ! 12 = pt a (b + 0.05) 0" "fistAt a b ! 16 = pt a (b + 0.05) 0"
  "fistAt a b ! 20 = pt a (b + 0.05) 0"
  "openAt a b ! 6 = pt a (b + 0.1) 0" "openAt a b ! 10 = pt a (b + 0.1) 0"
  "openAt a b ! 14 = pt a (b + 0.1) 0" "openAt a b ! 18 = pt a (b + 0.1) 0"
  "openAt a b ! 12 = pt a (b + 0.2) 0" "openAt a b ! 16 = pt a (b + 0.2) 0"
  "openAt a b ! 20 = pt a (b + 0.2) 0"
  by (simp_all add: fistAt_def openAt_def)

lemma coarse_fingers [simp]:
  "fingerExtendedIn coarse (fistAt a b) f = False" if "f \<in> set fingers"
  using that
  by (auto simp: fingers_def fingerExtendedIn_def wristDistance2DIn_def hypot_def
      power2_eq_square)

lemma coarse_open_fingers [simp]:
  "fingerExtendedIn coarse (openAt a b) f = False" if "f \<in> set fingers"
  using that
  by (auto simp: fingers_def fingerExtendedIn_def wristDistance2DIn_def hypot_def
      power2_eq_square)

lemma isHandOpenIn_coarse_samples [simp]:
  "isHandOpenIn coarse (fistAt a b) = Some False"
  "isHandOpenIn coarse (openAt a b) = Some False"
  by (simp_all add: isHandOpenIn_full fingers_def)

lemma isHandOpenIn_exact_samples [simp]:
  "isHandOpenIn exact (fistAt a b) = Some False"
  "isHandOpenIn exact (openAt a b) = Some True"
  "isHandOpenIn exact (pinchedFistAt a b) = Some False"
  using handOpen_samples [of a b]
  by (simp_all add: isHandOpenIn_exact isHandOpen_handOpen)

section \<open>Claims about the gesture classifier\<close>

text \<open>
  C7: for a hand of 21 landmarks and in any arithmetic, the loop of \<^verbatim>\<open>isHandOpen\<close> counts
  exactly the fingers (index, middle, ring, pinky) whose computed 2D distance from the wrist to
  the fingertip strictly exceeds the computed 2D distance from the wrist to the joint before
  the tip, and the hand is classified open if and only if that count is at least 3. The
  computed distance is what \<^verbatim>\<open>Math.hypot\<close> returns on the coordinate differences; in exact
  arithmetic it is the Euclidean distance.
\<close>

theorem isHandOpen_three_of_four_extended:
  assumes "length h = 21"
  shows "isHandOpenIn_loop ops h (h ! 0) 0 0 =
           Some (length (filter (fingerExtendedIn ops h) fingers))
       \<and> isHandOpenIn ops h = Some (3 \<le> length (filter (fingerExtendedIn ops h) fingers))
       \<and> (\<forall>tip pip. fingerExtendedIn ops h (tip, pip) \<longleftrightarrow>
            num_less ops (wristDistance2DIn ops h pip) (wristDistance2DIn ops h tip))
       \<and> (\<forall>g i. wristDistance2DIn exact g i = wristDistance2D g i)"
  using isHandOpenIn_full [OF assms] loopIn_count [OF assms]
  by (simp add: fingerExtendedIn_def)

theorem isHandOpen_three_of_four_extended_witness:
  "length threeFingerHand = 21 \<and> isHandOpenIn exact threeFingerHand = Some True
   \<and> length twoFingerHand = 21 \<and> isHandOpenIn exact twoFingerHand = Some False
   \<and> isHandOpenIn exact (openAt 0.5 0.5) = Some True
   \<and> isHandOpenIn coarse (openAt 0.5 0.5) = Some False"
  using isHandOpen_three_of_four_extended [of threeFingerHand exact]
    isHandOpen_three_of_four_extended [of twoFingerHand exact]
    isHandOpen_three_of_four_extended [of "openAt 0.5 0.5" exact]
    isHandOpen_three_of_four_extended [of "openAt 0.5 0.5" coarse]
  by (simp add: threeFingerHand_def twoFingerHand_def fingers_def fingerExtended_def
      wristDistance2D_def power2_eq_square)

text \<open>
  C1: in a frame with exactly two detected hands (of 21 landmarks each) and in any arithmetic,
  the zoom latch goes from off to on if and only if the computed 2D distance between the
  wrists is strictly below 0.2 and both hands are classified not open; it goes from on to off
  if and only if both hands are classified open. In every other two-hand frame the latch
  keeps its value. The computed distance is \<^verbatim>\<open>Math.sqrt(dx*dx + dy*dy)\<close>; in exact arithmetic
  it is the Euclidean distance.
\<close>

theorem zoom_latch_transitions:
  assumes "length a = 21" "length b = 21"
  shows "(\<not> isZoomActive st \<longrightarrow>
            (isZoomActive (snd (predictWebcamIn ops True [a, b] st)) \<longleftrightarrow>
               num_less ops (wristDistanceIn ops a b) (num_lit ops 0.2)
               \<and> isHandOpenIn ops a = Some False \<and> isHandOpenIn ops b = Some False))
       \<and> (isZoomActive st \<longrightarrow>
            (\<not> isZoomActive (snd (predictWebcamIn ops True [a, b] st)) \<longleftrightarrow>
               isHandOpenIn ops a = Some True \<and> isHandOpenIn ops b = Some True))
       \<and> (\<forall>c d. wristDistanceIn exact c d = wristDistance c d)"
  using predictWebcamIn_latch [OF assms, of ops st]
  by (simp add: ZOOM_ACTIVATION_THRESHOLD_def)

theorem zoom_latch_transitions_witness:
  "isZoomActive (snd (predictWebcamIn exact True [fistAt 0.4 0.5, fistAt 0.5 0.5] idleTracker))
   \<and> \<not> isZoomActive
        (snd (predictWebcamIn exact True [openAt 0.4 0.5, openAt 0.5 0.5] idleTracker))
   \<and> \<not> isZoomActive
        (snd (predictWebcamIn exact True [fistAt 0.2 0.5, fistAt 0.8 0.5] idleTracker))
   \<and> \<not> isZoomActive
        (snd (predictWebcamIn exact True [openAt 0.2 0.5, openAt 0.8 0.5] armedTracker))
   \<and> isZoomActive
        (snd (predictWebcamIn exact True [fistAt 0.2 0.5, openAt 0.8 0.5] armedTracker))
   \<and> \<not> isZoomActive
        (snd (predictWebcamIn exact True [fistAt 0.2 0.5, fistAt 0.4 0.5] idleTracker))
   \<and> isZoomActive
        (snd (predictWebcamIn coarse True [fistAt 0.2 0.5, fistAt 0.4 0.5] idleTracker))"
  using zoom_latch_transitions [of "fistAt 0.4 0.5" "fistAt 0.5 0.5" idleTracker exact]
    zoom_latch_transitions [of "openAt 0.4 0.5" "openAt 0.5 0.5" idleTracker exact]
    zoom_latch_transitions [of "fistAt 0.2 0.5" "fistAt 0.8 0.5" idleTracker exact]
    zoom_latch_transitions [of "openAt 0.2 0.5" "openAt 0.8 0.5" armedTracker exact]
    zoom_latch_transitions [of "fistAt 0.2 0.5" "openAt 0.8 0.5" armedTracker exact]
    zoom_latch_transitions [of "fistAt 0.2 0.5" "fistAt 0.4 0.5" idleTracker exact]
    zoom_latch_transitions [of "fistAt 0.2 0.5" "fistAt 0.4 0.5" idleTracker coarse]
  by (simp add: idleTracker_def armedTracker_def wristDistance_def wristDistanceIn_def
      power2_eq_square)

text \<open>
  C3: in a frame with a single hand (of 21 landmarks) and in any arithmetic, the emitted
  \<open>pinchDistance\<close> is the computed 3D distance between thumb tip and index tip, \<open>isPinched\<close>
  holds if and only if that distance is strictly below 0.05, so a computed distance equal to
  0.05 gives \<open>False\<close> (the comparison being irreflexive); the mode is ROTATE exactly when
  \<open>isPinched\<close> holds and IDLE otherwise. The computed distance is
  \<^verbatim>\<open>Math.sqrt(dx*dx + dy*dy + dz*dz)\<close>; in exact arithmetic it is the Euclidean distance.
\<close>

theorem single_hand_pinch_threshold:
  assumes "length h = 21"
  shows "fst (predictWebcamIn ops True [h] st) = Returned
       \<and> pinchDistance (handState (snd (predictWebcamIn ops True [h] st))) =
           thumbIndexDistanceIn ops h
       \<and> (isPinched (handState (snd (predictWebcamIn ops True [h] st))) \<longleftrightarrow>
            num_less ops (thumbIndexDistanceIn ops h) (num_lit ops PINCH_THRESHOLD))
       \<and> PINCH_THRESHOLD = 0.05
       \<and> ((\<forall>x. \<not> num_less ops x x) \<and> thumbIndexDistanceIn ops h = num_lit ops 0.05 \<longrightarrow>
            \<not> isPinched (handState (snd (predictWebcamIn ops True [h] st))))
       \<and> (mode (handState (snd (predictWebcamIn ops True [h] st))) = ROTATE \<longleftrightarrow>
            isPinched (handState (snd (predictWebcamIn ops True [h] st))))
       \<and> (mode (handState (snd (predictWebcamIn ops True [h] st))) = IDLE \<longleftrightarrow>
            \<not> isPinched (handState (snd (predictWebcamIn ops True [h] st))))
       \<and> (\<forall>g. thumbIndexDistanceIn exact g = thumbIndexDistance g)"
  using assms by (simp add: predictWebcamIn_single PINCH_THRESHOLD_def)

theorem single_hand_pinch_threshold_witness:
  "thumbIndexDistanceIn exact (handWith (pt 0.5 0.5 0) (pt 0.53 0.54 0)) = 0.05
   \<and> \<not> isPinched (handState (snd (predictWebcamIn exact True
          [handWith (pt 0.5 0.5 0) (pt 0.53 0.54 0)] idleTracker)))
   \<and> mode (handState (snd (predictWebcamIn exact True
          [handWith (pt 0.5 0.5 0) (pt 0.53 0.54 0)] idleTracker))) = IDLE
   \<and> isPinched (handState (snd (predictWebcamIn exact True
          [handWith (pt 0.5 0.5 0) (pt 0.5 0.5 0.04)] idleTracker)))
   \<and> mode (handState (snd (predictWebcamIn exact True
          [handWith (pt 0.5 0.5 0) (pt 0.5 0.5 0.04)] idleTracker))) = ROTATE
   \<and> \<not> isPinched (handState (snd (predictWebcamIn exact True
          [handWith (pt 0.5 0.5 0) (pt 0.5 0.5 0.06)] idleTracker)))
   \<and> isPinched (handState (snd (predictWebcamIn coarse True
          [handWith (pt 0.5 0.5 0) (pt 0.5 0.5 0.06)] idleTracker)))
   \<and> mode (handState (snd (predictWebcamIn coarse True
          [handWith (pt 0.5 0.5 0) (pt 0.5 0.5 0.06)] idleTracker))) = ROTATE"
  using
    single_hand_pinch_threshold [of "handWith (pt 0.5 0.5 0) (pt 0.53 0.54 0)" exact idleTracker]
    single_hand_pinch_threshold [of "handWith (pt 0.5 0.5 0) (pt 0.5 0.5 0.04)" exact idleTracker]
    single_hand_pinch_threshold [of "handWith (pt 0.5 0.5 0) (pt 0.5 0.5 0.06)" exact idleTracker]
    single_hand_pinch_threshold [of "handWith (pt 0.5 0.5 0) (pt 0.5 0.5 0.06)" coarse idleTracker]
  by (simp add: thumbIndexDistance_def thumbIndexDistanceIn_def PINCH_THRESHOLD_def
      power2_eq_square)

text \<open>
  C4: after a frame with exactly one detected hand the zoom latch is off, whatever its value
  before; in particular after a one-hand frame that follows any two-hand frame.
\<close>

theorem one_hand_clears_latch:
  assumes "length one = 1"
  shows "\<not> isZoomActive (snd (predictWebcam True one st))
       \<and> (length two = 2 \<longrightarrow>
            \<not> isZoomActive (snd (predictWebcam True one (snd (predictWebcam True two st)))))"
  using assms by (simp add: predictWebcam_latch_cleared)

theorem one_hand_clears_latch_witness:
  "isZoomActive (snd (predictWebcam True [fistAt 0.4 0.5, fistAt 0.5 0.5] armedTracker))
   \<and> \<not> isZoomActive (snd (predictWebcam True [fistAt 0.4 0.5]
          (snd (predictWebcam True [fistAt 0.4 0.5, fistAt 0.5 0.5] armedTracker))))
   \<and> \<not> isZoomActive (snd (predictWebcam True [fistAt 0.4 0.5] armedTracker))
   \<and> \<not> isZoomActive (snd (predictWebcam True [[]] armedTracker))"
  using one_hand_clears_latch [of "[fistAt 0.4 0.5]" armedTracker
      "[fistAt 0.4 0.5, fistAt 0.5 0.5]"]
    one_hand_clears_latch [of "[[]]" armedTracker "[]"]
  by (simp add: predictWebcam_two latchAfter_def armedTracker_def)

text \<open>
  C5: a frame with no detected hand stores the neutral default record (pinchDistance 1,
  handDistance 0, not pinched, position (0, 0), not detected, mode IDLE) and resets the zoom
  latch to off.
\<close>

theorem no_hands_resets:
  "predictWebcam True [] st =
     (Returned, \<lparr>isZoomActive = False, handState = INITIAL_HAND_STATE\<rparr>)
   \<and> INITIAL_HAND_STATE =
       \<lparr>pinchDistance = 1, handDistance = 0, isPinched = False,
        position = \<lparr>pos_x = 0, pos_y = 0\<rparr>, isDetected = False, mode = IDLE\<rparr>"
  by (simp add: predictWebcam_none INITIAL_HAND_STATE_def)

theorem no_hands_resets_witness:
  "isZoomActive armedTracker
   \<and> \<not> isZoomActive (snd (predictWebcam True [] armedTracker))
   \<and> \<not> isDetected (handState (snd (predictWebcam True [] armedTracker)))
   \<and> mode (handState (snd (predictWebcam True [] armedTracker))) = IDLE"
  using no_hands_resets [of armedTracker]
  by (simp add: armedTracker_def INITIAL_HAND_STATE_def)

text \<open>
  C6: every emitted position is \<open>x = (0.5 - rx) * 2\<close>, \<open>y = (ry - 0.5) * 2\<close> of raw coordinates
  \<open>(rx, ry)\<close>: the midpoint of the two wrists in ZOOM mode, the midpoint of thumb tip and wrist
  of the first hand otherwise, and \<open>(0.5, 0.5)\<close> for the default record. Raw \<open>(0.5, 0.5)\<close> maps
  to \<open>(0, 0)\<close>, raw \<open>(0, 0)\<close> to \<open>(1, -1)\<close> and raw \<open>(1, 1)\<close> to \<open>(-1, 1)\<close>.
\<close>

theorem emitted_position_mapping:
  assumes "length a = 21" "length b = 21"
  shows "position (handState (snd (predictWebcam True [a] st))) =
           mapPosition (fst (thumbWristMidpoint a)) (snd (thumbWristMidpoint a))
       \<and> (mode (handState (snd (predictWebcam True [a, b] st))) = ZOOM \<longrightarrow>
            position (handState (snd (predictWebcam True [a, b] st))) =
              mapPosition (fst (wristMidpoint a b)) (snd (wristMidpoint a b)))
       \<and> (mode (handState (snd (predictWebcam True [a, b] st))) \<noteq> ZOOM \<longrightarrow>
            position (handState (snd (predictWebcam True [a, b] st))) =
              mapPosition (fst (thumbWristMidpoint a)) (snd (thumbWristMidpoint a)))
       \<and> position (handState (snd (predictWebcam True [] st))) = mapPosition 0.5 0.5
       \<and> (\<forall>rx ry. pos_x (mapPosition rx ry) = (0.5 - rx) * 2
              \<and> pos_y (mapPosition rx ry) = (ry - 0.5) * 2)
       \<and> mapPosition 0.5 0.5 = \<lparr>pos_x = 0, pos_y = 0\<rparr>
       \<and> mapPosition 0 0 = \<lparr>pos_x = 1, pos_y = - 1\<rparr>
       \<and> mapPosition 1 1 = \<lparr>pos_x = - 1, pos_y = 1\<rparr>"
  using assms
  by (simp add: predictWebcam_single predictWebcam_two predictWebcam_none singleHandState_def
      zoomHandState_def mapPosition_def INITIAL_HAND_STATE_def)

theorem emitted_position_mapping_witness:
  "position (handState (snd (predictWebcam True [fistAt 0.5 0.5, fistAt 0.5 0.5] armedTracker)))
     = \<lparr>pos_x = 0, pos_y = 0\<rparr>
   \<and> position (handState (snd (predictWebcam True [fistAt 0 0, fistAt 0 0] armedTracker)))
     = \<lparr>pos_x = 1, pos_y = - 1\<rparr>
   \<and> position (handState (snd (predictWebcam True [fistAt 1 1, fistAt 1 1] armedTracker)))
     = \<lparr>pos_x = - 1, pos_y = 1\<rparr>
   \<and> position (handState (snd (predictWebcam True [fistAt 0.2 0.3, fistAt 0.4 0.9] armedTracker)))
     = \<lparr>pos_x = 0.4, pos_y = 0.2\<rparr>
   \<and> position (handState (snd (predictWebcam True [fistAt 0.45 0.5] armedTracker)))
     = \<lparr>pos_x = 0, pos_y = 0\<rparr>
   \<and> position (handState (snd (predictWebcam True [fistAt 0.2 0.3] armedTracker)))
     = \<lparr>pos_x = 0.5, pos_y = - 0.4\<rparr>"
proof -
  have zoom: "mode (handState (snd (predictWebcam True [fistAt p q, fistAt r s] armedTracker)))
      = ZOOM" for p q r s
    by (simp add: predictWebcam_two latchAfter_def armedTracker_def zoomHandState_def)
  show ?thesis
    using emitted_position_mapping [of "fistAt 0.5 0.5" "fistAt 0.5 0.5" armedTracker]
      emitted_position_mapping [of "fistAt 0 0" "fistAt 0 0" armedTracker]
      emitted_position_mapping [of "fistAt 1 1" "fistAt 1 1" armedTracker]
      emitted_position_mapping [of "fistAt 0.2 0.3" "fistAt 0.4 0.9" armedTracker]
      emitted_position_mapping [of "fistAt 0.45 0.5" "fistAt 0 0" armedTracker]
    by (simp add: zoom mapPosition_def wristMidpoint_def thumbWristMidpoint_def)
qed

text \<open>
  C8: the same single-hand keypoint set on two consecutive frames gives the same interaction
  state both times, and a single-hand frame gives the same outcome from any earlier state.
  In general the outcome of a frame of well-formed hands depends on the earlier state only
  through the latch bit.
\<close>

theorem classification_deterministic:
  "(length h = 21 \<longrightarrow>
      handState (snd (predictWebcam True [h] (snd (predictWebcam True [h] st)))) =
      handState (snd (predictWebcam True [h] st))
      \<and> predictWebcam True [h] st' = predictWebcam True [h] st)
   \<and> ((\<forall>h \<in> set landmarks. length h = 21) \<and> isZoomActive st' = isZoomActive st \<longrightarrow>
        predictWebcam True landmarks st' = predictWebcam True landmarks st)"
proof -
  have one: "predictWebcam True [h] s = predictWebcam True [h] s'" if "length h = 21" for s s'
    using that by (simp add: predictWebcam_single)
  have any: "predictWebcam True landmarks s = predictWebcam True landmarks s'"
    if wf: "\<forall>h \<in> set landmarks. length h = 21" and eq: "isZoomActive s = isZoomActive s'"
    for s s'
  proof (cases "length landmarks = 2")
    case True
    then obtain a b where ab: "landmarks = [a, b]"
      by (cases landmarks; simp) (rename_tac x xs, case_tac xs; simp)
    with wf eq show ?thesis by (simp add: predictWebcam_two)
  next
    case False
    show ?thesis
    proof (cases "landmarks = []")
      case True
      then show ?thesis by (simp add: predictWebcam_none)
    next
      case ne: False
      then have "length (landmarks ! 0) = 21" using wf by (cases landmarks) simp_all
      with ne False show ?thesis by (simp add: predictWebcam_single)
    qed
  qed
  show ?thesis
    using one [of st' st] one [of "snd (predictWebcam True [h] st)" st] any [of st' st]
    by simp
qed

theorem classification_deterministic_witness:
  "handState (snd (predictWebcam True [pinchedFistAt 0.5 0.5]
       (snd (predictWebcam True [pinchedFistAt 0.5 0.5] armedTracker)))) =
   handState (snd (predictWebcam True [pinchedFistAt 0.5 0.5] armedTracker))
   \<and> predictWebcam True [pinchedFistAt 0.5 0.5] idleTracker =
     predictWebcam True [pinchedFistAt 0.5 0.5] armedTracker
   \<and> predictWebcam True [fistAt 0.4 0.5, fistAt 0.5 0.5]
       \<lparr>isZoomActive = False, handState = singleHandState (fistAt 0 0) ROTATE\<rparr> =
     predictWebcam True [fistAt 0.4 0.5, fistAt 0.5 0.5] idleTracker"
  using classification_deterministic [of "pinchedFistAt 0.5 0.5" armedTracker idleTracker "[]"]
    classification_deterministic [of "[]" idleTracker
      "\<lparr>isZoomActive = False, handState = singleHandState (fistAt 0 0) ROTATE\<rparr>"
      "[fistAt 0.4 0.5, fistAt 0.5 0.5]"]
  by (simp add: idleTracker_def)

text \<open>
  C10: in a frame with exactly two detected hands where the latch is off once the frame's
  latch transition is done, and in any arithmetic, the emitted state has mode IDLE and
  handDistance 0, and its other fields follow the single-hand formulas on the first hand:
  pinchDistance is its computed 3D thumb-index distance, isPinched is that distance below 0.05
  (so it can hold in mode IDLE), position is its mapped thumb-wrist midpoint, and isDetected
  holds.
\<close>

theorem two_hands_latch_off_state:
  assumes "length a = 21" "length b = 21"
    and "\<not> isZoomActive (snd (predictWebcamIn ops True [a, b] st))"
  shows "handState (snd (predictWebcamIn ops True [a, b] st)) =
           \<lparr>pinchDistance = thumbIndexDistanceIn ops a, handDistance = num_lit ops 0,
            isPinched = num_less ops (thumbIndexDistanceIn ops a) (num_lit ops 0.05),
            position = mapPositionIn ops (fst (thumbWristMidpointIn ops a))
                         (snd (thumbWristMidpointIn ops a)),
            isDetected = True, mode = IDLE\<rparr>"
  using predictWebcamIn_latch_off [OF assms] by (simp add: PINCH_THRESHOLD_def)

theorem two_hands_latch_off_state_witness:
  "\<not> isZoomActive
      (snd (predictWebcamIn exact True [pinchedFistAt 0.2 0.5, fistAt 0.8 0.5] idleTracker))
   \<and> handState
       (snd (predictWebcamIn exact True [pinchedFistAt 0.2 0.5, fistAt 0.8 0.5] idleTracker)) =
       \<lparr>pinchDistance = 0, handDistance = 0, isPinched = True,
        position = \<lparr>pos_x = 0.6, pos_y = 0.05\<rparr>, isDetected = True, mode = IDLE\<rparr>"
proof -
  have off: "\<not> isZoomActive
      (snd (predictWebcamIn exact True [pinchedFistAt 0.2 0.5, fistAt 0.8 0.5] idleTracker))"
    by (simp add: predictWebcamIn_latch idleTracker_def wristDistance_def power2_eq_square
        ZOOM_ACTIVATION_THRESHOLD_def)
  show ?thesis
    using off two_hands_latch_off_state [OF _ _ off]
    by (simp add: thumbIndexDistance_def mapPosition_def thumbWristMidpoint_def)
qed

section \<open>Claims about the scene animator\<close>

text \<open>
  C2 as stated fails: the linear map of the distance range \<open>[0.2, 0.8]\<close> onto the scale range
  \<open>[0.8, 4.0]\<close> gives 2.4 at hand distance 0.5, where the animator's target scale is 2.72; the
  target scale is 4.0 from hand distance 0.7 on.
\<close>

theorem zoom_scale_not_linear_on_02_08:
  "zoomTargetScale 0.5 = 2.72 \<and> linearRangeMap 0.2 0.8 0.8 4.0 0.5 = 2.4
   \<and> zoomTargetScale 0.5 \<noteq> linearRangeMap 0.2 0.8 0.8 4.0 0.5
   \<and> zoomTargetScale 0.7 = 4.0"
  by (simp add: zoomTargetScale_def linearRangeMap_def Let_def)

text \<open>
  C2, amended: in ZOOM mode the scale moves by one lerp step of factor 0.1 toward the target
  scale \<open>0.8 + clamp01 ((handDistance - 0.2) * 2) * 3.2\<close>. The target maps the distance range
  \<open>[0.2, 0.7]\<close> linearly onto \<open>[0.8, 4.0]\<close> and is clamped at both ends: 0.8 up to distance
  0.2, and 4.0 from distance 0.7 on. Distances 0.2 and 0.05 give 0.8, distances 0.8 and 1.0
  give 4.0.
\<close>

theorem zoom_target_scale:
  "zoomTargetScale d = 0.8 + clamp01 ((d - 0.2) * 2) * 3.2
   \<and> (d \<le> 0.2 \<longrightarrow> zoomTargetScale d = 0.8)
   \<and> (0.2 \<le> d \<and> d \<le> 0.7 \<longrightarrow> zoomTargetScale d = linearRangeMap 0.2 0.7 0.8 4.0 d)
   \<and> (0.7 \<le> d \<longrightarrow> zoomTargetScale d = 4.0)
   \<and> zoomTargetScale 0.2 = 0.8 \<and> zoomTargetScale 0.8 = 4.0
   \<and> zoomTargetScale 0.05 = 0.8 \<and> zoomTargetScale 1.0 = 4.0
   \<and> (isDetected hand \<and> mode hand = ZOOM \<longrightarrow>
        currentScale (useFrame hand time delta st) =
          lerp (currentScale st) (zoomTargetScale (handDistance hand)) 0.1)"
proof -
  have "d \<le> 0.2 \<longrightarrow> zoomTargetScale d = 0.8"
    by (simp add: zoomTargetScale_def Let_def max_def min_def)
  moreover have "0.2 \<le> d \<and> d \<le> 0.7 \<longrightarrow> zoomTargetScale d = linearRangeMap 0.2 0.7 0.8 4.0 d"
    by (simp add: zoomTargetScale_def linearRangeMap_def Let_def max_def min_def)
  moreover have "0.7 \<le> d \<longrightarrow> zoomTargetScale d = 4.0"
    by (simp add: zoomTargetScale_def Let_def max_def min_def)
  moreover have "zoomTargetScale 0.2 = 0.8 \<and> zoomTargetScale 0.8 = 4.0
      \<and> zoomTargetScale 0.05 = 0.8 \<and> zoomTargetScale 1.0 = 4.0"
    by (simp add: zoomTargetScale_def Let_def)
  ultimately show ?thesis
    using useFrame_zoom_scale [of hand time delta st]
    by (simp add: zoomTargetScale_clamp lerpFactor_def)
qed

theorem zoom_target_scale_witness:
  "zoomTargetScale 0.5 = linearRangeMap 0.2 0.7 0.8 4.0 0.5
   \<and> zoomTargetScale 0.5 = 2.72
   \<and> zoomTargetScale 0.1 = 0.8
   \<and> zoomTargetScale 0.75 = 4.0
   \<and> currentScale (useFrame (zoomingHand 0.8) 0 0 sampleAnimator) = 1.75"
  using zoom_target_scale [of "0.5" "zoomingHand 0.8" 0 0 sampleAnimator]
    zoom_target_scale [of "0.1" "zoomingHand 0.8" 0 0 sampleAnimator]
    zoom_target_scale [of "0.75" "zoomingHand 0.8" 0 0 sampleAnimator]
  by (simp add: linearRangeMap_def zoomingHand_def sampleAnimator_def lerp_def)

text \<open>
  C9: on an animator frame where a hand is detected and the mode is not ROTATE, the pitch
  (\<open>rotation.x\<close>) of the mounted group moves toward zero by one lerp step of factor 0.05, and
  its yaw (\<open>rotation.y\<close>) is left as it was.
\<close>

theorem zoom_only_relaxes_pitch:
  assumes "isDetected hand" "mode hand \<noteq> ROTATE" "groupRef st = Some g"
  shows "map_option rotation (groupRef (useFrame hand time delta st)) =
           Some \<lparr>rot_x = lerp (rot_x (rotation g)) 0 0.05, rot_y = rot_y (rotation g)\<rparr>
       \<and> lerp (rot_x (rotation g)) 0 0.05 = 0.95 * rot_x (rotation g)
       \<and> \<bar>lerp (rot_x (rotation g)) 0 0.05\<bar> \<le> \<bar>rot_x (rotation g)\<bar>"
  using useFrame_relax [OF assms, of time delta] by (simp add: lerp_def abs_mult)

theorem zoom_only_relaxes_pitch_witness:
  "map_option rotation (groupRef (useFrame (zoomingHand 0.5) 3 0.016 sampleAnimator)) =
     Some \<lparr>rot_x = 0.95, rot_y = 2\<rparr>"
  using zoom_only_relaxes_pitch [of "zoomingHand 0.5" sampleAnimator
      "\<lparr>rotation = \<lparr>rot_x = 1, rot_y = 2\<rparr>, scalar = 1.5\<rparr>" 3 "0.016"]
  by (simp add: zoomingHand_def sampleAnimator_def lerp_def)

end
